theory Spec2Isabelle
  imports Complex_Main
begin

section \<open>Plane-wave wavefunctions of abipy (abipy/waves/pwwave.py)\<close>

text \<open>
  A shallow embedding of the classes \<^verbatim>\<open>WaveFunction\<close> and \<^verbatim>\<open>PWWaveFunction\<close>.

  Conventions of the embedding:
  \<^item> The float64 and complex128 of NumPy are idealised as the HOL types \<open>real\<close> and
    \<open>complex\<close>: arithmetic is exact, there is no rounding, no NaN and no infinity.
  \<^item> A NumPy array is a shape together with its elements in row-major (C) order.
  \<^item> A raised exception is the \<open>Inl\<close> of a sum; the exception classes are those of Python.
  \<^item> A method that mutates its object takes the object and returns the object after the call.
  \<^item> The collaborators that live outside pwwave.py (\<^verbatim>\<open>rotate\<close> and
    \<^verbatim>\<open>tofftmesh\<close> of the G-sphere, \<^verbatim>\<open>fft_g2r\<close> and \<^verbatim>\<open>integrate\<close> of the mesh) are parameters,
    collected in the record \<open>Extern\<close>; every theorem holds for all of them.
\<close>

subsection \<open>Exceptions\<close>

datatype error =
    AssertionError
  | AttributeError
  | IndexError
  | TypeError string
  | ValueError string

subsection \<open>NumPy arrays\<close>

record 'a ndarray =
  ashape :: "nat list"
  adata :: "'a list"

text \<open>An array of NumPy holds as many elements as its shape says.\<close>

definition array_ok :: "'a ndarray \<Rightarrow> bool" where
  "array_ok a \<longleftrightarrow> length (adata a) = prod_list (ashape a)"

text \<open>\<^verbatim>\<open>a.ndim\<close>\<close>

definition ndim :: "'a ndarray \<Rightarrow> nat" where
  "ndim a = length (ashape a)"

text \<open>\<^verbatim>\<open>a[i, j]\<close> of a two-dimensional array, \<open>i\<close> and \<open>j\<close> in range.\<close>

definition elem :: "'a ndarray \<Rightarrow> nat \<Rightarrow> nat \<Rightarrow> 'a" where
  "elem a i j = adata a ! (i * (ashape a ! 1) + j)"

text \<open>
  \<^verbatim>\<open>a[:, j]\<close> of a two-dimensional array: the column \<open>j\<close>, IndexError when \<open>j\<close> is
  out of bounds. (The arrays held by a wavefunction are two-dimensional, see the
  constructor; the other ranks are given IndexError here.)
\<close>

definition get_col :: "'a ndarray \<Rightarrow> nat \<Rightarrow> error + 'a list" where
  "get_col a j =
     (case ashape a of
        [r, c] \<Rightarrow> if j < c then Inr (map (\<lambda>s. adata a ! (s * c + j)) [0..<r]) else Inl IndexError
      | _ \<Rightarrow> Inl IndexError)"

text \<open>\<^verbatim>\<open>a[:, j] = v\<close> where \<open>v\<close> has one entry per row.\<close>

definition set_col :: "'a ndarray \<Rightarrow> nat \<Rightarrow> 'a list \<Rightarrow> error + 'a ndarray" where
  "set_col a j v =
     (case ashape a of
        [r, c] \<Rightarrow>
          if j < c
          then Inr (a\<lparr>adata := fold (\<lambda>s d. d[s * c + j := v ! s]) [0..<r] (adata a)\<rparr>)
          else Inl IndexError
      | _ \<Rightarrow> Inl IndexError)"

text \<open>
  \<^verbatim>\<open>np.empty_like(a)\<close>: an array of the shape of \<open>a\<close> whose content is not
  initialised. The content is modelled as zeros; \<^verbatim>\<open>rotate\<close> overwrites every cell.
\<close>

definition empty_like :: "complex ndarray \<Rightarrow> complex ndarray" where
  "empty_like a = \<lparr>ashape = ashape a, adata = replicate (length (adata a)) 0\<rparr>"

text \<open>\<^verbatim>\<open>a.copy()\<close> and \<^verbatim>\<open>np.array(a)\<close>: a new array with the same shape and elements.\<close>

definition copy :: "'a ndarray \<Rightarrow> 'a ndarray" where
  "copy a = \<lparr>ashape = ashape a, adata = adata a\<rparr>"

text \<open>
  \<^verbatim>\<open>np.vdot(a, b)\<close>: both arrays are flattened, the first is conjugated; arrays of
  different sizes are refused with a ValueError.
\<close>

definition vdot :: "complex ndarray \<Rightarrow> complex ndarray \<Rightarrow> error + complex" where
  "vdot a b =
     (if length (adata a) \<noteq> length (adata b)
      then Inl (ValueError ''vdot: arrays of different sizes'')
      else Inr (sum_list (map (\<lambda>(x, y). cnj x * y) (zip (adata a) (adata b)))))"

text \<open>
  \<^verbatim>\<open>np.isclose\<close> with its default tolerances \<open>rtol = 1e-5\<close> and \<open>atol = 1e-8\<close>:
  \<^verbatim>\<open>abs(a - b) <= atol + rtol * abs(b)\<close>.
\<close>

definition rtol :: real where
  "rtol = 1 / 10 ^ 5"

definition atol :: real where
  "atol = 1 / 10 ^ 8"

definition isclose :: "'a::real_normed_vector \<Rightarrow> 'a \<Rightarrow> bool" where
  "isclose a b \<longleftrightarrow> norm (a - b) \<le> atol + rtol * norm b"

text \<open>Broadcasting of one dimension: equal lengths, or one of them is 1.\<close>

definition bdim :: "nat \<Rightarrow> nat \<Rightarrow> nat option" where
  "bdim m n = (if m = n then Some m else if m = 1 then Some n else if n = 1 then Some m else None)"

text \<open>The element that the cell \<open>(i, j)\<close> of the broadcast result reads from \<open>a\<close>.\<close>

definition belem :: "'a ndarray \<Rightarrow> nat \<Rightarrow> nat \<Rightarrow> 'a" where
  "belem a i j =
     (case ashape a of
        [r, c] \<Rightarrow> adata a ! ((if r = 1 then 0 else i) * c + (if c = 1 then 0 else j)))"

text \<open>
  \<^verbatim>\<open>np.allclose(a, b)\<close> on two-dimensional arrays: the arrays are broadcast against each
  other (ValueError when they cannot be) and every pair of elements has to be close.
\<close>

definition allclose :: "complex ndarray \<Rightarrow> complex ndarray \<Rightarrow> error + bool" where
  "allclose a b =
     (case (ashape a, ashape b) of
        ([r1, c1], [r2, c2]) \<Rightarrow>
          (case (bdim r1 r2, bdim c1 c2) of
             (Some r, Some c) \<Rightarrow>
               Inr (list_all (\<lambda>i. list_all (\<lambda>j. isclose (belem a i j) (belem b i j)) [0..<c]) [0..<r])
           | _ \<Rightarrow> Inl (ValueError ''operands could not be broadcast together''))
      | _ \<Rightarrow> Inl (ValueError ''operands could not be broadcast together''))"

subsection \<open>Vectors with three components\<close>

type_synonym gvec = "int \<times> int \<times> int"
type_synonym vec3 = "real \<times> real \<times> real"

text \<open>\<^verbatim>\<open>np.zeros(3)\<close>\<close>

definition zeros3 :: vec3 where
  "zeros3 = (0, 0, 0)"

text \<open>\<^verbatim>\<open>np.allclose(a, b)\<close> on two vectors of three floats.\<close>

fun allclose3 :: "vec3 \<Rightarrow> vec3 \<Rightarrow> bool" where
  "allclose3 (a1, a2, a3) (b1, b2, b3) \<longleftrightarrow> isclose a1 b1 \<and> isclose a2 b2 \<and> isclose a3 b3"

text \<open>\<^verbatim>\<open>g + k\<close> of an integer vector and a float vector: a float vector.\<close>

fun gadd :: "gvec \<Rightarrow> vec3 \<Rightarrow> vec3" where
  "gadd (g1, g2, g3) (k1, k2, k3) = (of_int g1 + k1, of_int g2 + k2, of_int g3 + k3)"

text \<open>\<^verbatim>\<open>np.dot(a, b)\<close> of two vectors of three floats.\<close>

fun dot3 :: "vec3 \<Rightarrow> vec3 \<Rightarrow> real" where
  "dot3 (a1, a2, a3) (b1, b2, b3) = a1 * b1 + a2 * b2 + a3 * b3"

subsection \<open>Strings\<close>

text \<open>
  \<^verbatim>\<open>str.lower()\<close> on the byte strings of the source (Python 2): the letters A to Z
  become a to z, every other character is kept.
\<close>

definition lower_char :: "char \<Rightarrow> char" where
  "lower_char c =
     (if 65 \<le> (of_char c :: nat) \<and> (of_char c :: nat) \<le> 90
      then char_of ((of_char c :: nat) + 32) else c)"

definition lower :: "string \<Rightarrow> string" where
  "lower s = map lower_char s"

subsection \<open>The collaborators\<close>

text \<open>
  Modelled from the spec: the class \<^verbatim>\<open>GSphere\<close> (abipy.core) is not part of
  pwwave.py. A G-sphere is an ordered sequence of integer vectors, a k-point in fractional
  coordinates and an energy cutoff; its length is the number of its vectors; two spheres are
  equal when they are equal as values.
\<close>

record GSphere =
  ecut :: real
  kpoint :: vec3
  gvecs :: "gvec list"

text \<open>\<^verbatim>\<open>gsphere.npw\<close> and \<^verbatim>\<open>len(gsphere)\<close>\<close>

definition gsphere_npw :: "GSphere \<Rightarrow> nat" where
  "gsphere_npw g = length (gvecs g)"

text \<open>
  Modelled from the spec: a symmetry operation has a rotation, a fractional translation
  \<^verbatim>\<open>tau\<close> and the flag \<^verbatim>\<open>is_fm\<close> (ferromagnetic or anti-ferromagnetic). pwwave.py
  reads \<^verbatim>\<open>tau\<close> and \<^verbatim>\<open>is_fm\<close> only; the rotation is used by the G-sphere.
\<close>

record Symmetry =
  rotation :: "int list list"
  tau :: vec3
  is_fm :: bool

text \<open>Modelled from the spec: the FFT mesh, with its shape and the volume \<^verbatim>\<open>dv\<close> of a cell.\<close>

record Mesh3D =
  mesh_shape :: "nat \<times> nat \<times> nat"
  dv :: real

text \<open>
  The operations of the collaborators that pwwave.py calls:
  \<^verbatim>\<open>gsphere.rotate(symmop)\<close>, \<^verbatim>\<open>gsphere.tofftmesh(mesh, ug)\<close>,
  \<^verbatim>\<open>mesh.fft_g2r(ug_mesh, fg_ishifted=False)\<close> and \<^verbatim>\<open>mesh.integrate(ur2)\<close>.
\<close>

record Extern =
  gsphere_rotate :: "GSphere \<Rightarrow> Symmetry \<Rightarrow> GSphere"
  tofftmesh :: "GSphere \<Rightarrow> Mesh3D \<Rightarrow> complex ndarray \<Rightarrow> complex ndarray"
  fft_g2r :: "Mesh3D \<Rightarrow> complex ndarray \<Rightarrow> complex ndarray"
  integrate :: "Mesh3D \<Rightarrow> real ndarray \<Rightarrow> real"

subsection \<open>The wavefunction object\<close>

text \<open>
  The attributes of a \<^verbatim>\<open>PWWaveFunction\<close>. \<open>ur_attr\<close> is the attribute \<^verbatim>\<open>_ur\<close> and
  \<open>mesh_attr\<close> the attribute \<^verbatim>\<open>_mesh\<close>: \<open>None\<close> when the object does not have the
  attribute.
\<close>

record PWWaveFunction =
  nspinor :: int
  spin :: int
  band :: int
  gsphere :: GSphere
  ug :: "complex ndarray"
  ur_attr :: "complex ndarray option"
  mesh_attr :: "Mesh3D option"

text \<open>\<^verbatim>\<open>PWWaveFunction.__init__\<close>\<close>

definition PWWaveFunction_init ::
  "int \<Rightarrow> int \<Rightarrow> int \<Rightarrow> GSphere \<Rightarrow> complex ndarray \<Rightarrow> error + PWWaveFunction" where
  "PWWaveFunction_init nspinor' spin' band' gsphere' ug' =
     (if ndim ug' \<noteq> 2 then Inl AssertionError
      else if int (ashape ug' ! 0) \<noteq> nspinor' then Inl AssertionError
      else if ashape ug' ! 1 \<noteq> gsphere_npw gsphere' then Inl AssertionError
      else Inr \<lparr>nspinor = nspinor', spin = spin', band = band', gsphere = gsphere',
                ug = copy ug', ur_attr = None, mesh_attr = None\<rparr>)"

text \<open>\<^verbatim>\<open>WaveFunction.npw\<close>: \<^verbatim>\<open>len(self.gsphere)\<close>\<close>

definition npw :: "PWWaveFunction \<Rightarrow> nat" where
  "npw w = gsphere_npw (gsphere w)"

text \<open>\<^verbatim>\<open>WaveFunction.shape\<close>: \<^verbatim>\<open>(self.nspinor, self.npw)\<close>\<close>

definition shape :: "PWWaveFunction \<Rightarrow> int list" where
  "shape w = [nspinor w, int (npw w)]"

text \<open>\<^verbatim>\<open>WaveFunction.delete_ur\<close>\<close>

definition delete_ur :: "PWWaveFunction \<Rightarrow> PWWaveFunction" where
  "delete_ur w = w\<lparr>ur_attr := None\<rparr>"

text \<open>
  \<^verbatim>\<open>WaveFunction.set_ug\<close>. The result is the exception raised, if any, and the object
  after the call. The second statement of the source assigns to \<^verbatim>\<open>set._ug\<close>, an
  attribute of the built-in type \<^verbatim>\<open>set\<close>, which Python refuses with a TypeError, so
  \<^verbatim>\<open>self.delete_ur()\<close> is never reached.
\<close>

definition set_ug :: "PWWaveFunction \<Rightarrow> complex ndarray \<Rightarrow> error option \<times> PWWaveFunction" where
  "set_ug w ug' =
     (if map int (ashape ug') \<noteq> shape w then (Some AssertionError, w)
      else (Some (TypeError ''cannot set attributes of built-in/extension type set''), w))"

text \<open>\<^verbatim>\<open>WaveFunction.mesh\<close>: reading \<^verbatim>\<open>self._mesh\<close>.\<close>

definition mesh :: "PWWaveFunction \<Rightarrow> error + Mesh3D" where
  "mesh w = (case mesh_attr w of None \<Rightarrow> Inl AttributeError | Some m \<Rightarrow> Inr m)"

text \<open>\<^verbatim>\<open>WaveFunction.set_mesh\<close>\<close>

definition set_mesh :: "PWWaveFunction \<Rightarrow> Mesh3D \<Rightarrow> PWWaveFunction" where
  "set_mesh w m = delete_ur (w\<lparr>mesh_attr := Some m\<rparr>)"

text \<open>\<^verbatim>\<open>WaveFunction._fft_ug\<close>\<close>

definition fft_ug :: "Extern \<Rightarrow> PWWaveFunction \<Rightarrow> error + complex ndarray" where
  "fft_ug E w =
     (case mesh w of
        Inl e \<Rightarrow> Inl e
      | Inr m \<Rightarrow> Inr (fft_g2r E m (tofftmesh E (gsphere w) m (ug w))))"

text \<open>
  \<^verbatim>\<open>WaveFunction.ur\<close>: the cached array when the object has the attribute \<^verbatim>\<open>_ur\<close>,
  otherwise the transform of \<^verbatim>\<open>ug\<close>, which is stored in \<^verbatim>\<open>_ur\<close>.
\<close>

definition ur :: "Extern \<Rightarrow> PWWaveFunction \<Rightarrow> error + complex ndarray \<times> PWWaveFunction" where
  "ur E w =
     (case ur_attr w of
        Some u \<Rightarrow> Inr (u, w)
      | None \<Rightarrow>
          (case fft_ug E w of
             Inl e \<Rightarrow> Inl e
           | Inr u \<Rightarrow> Inr (u, w\<lparr>ur_attr := Some u\<rparr>)))"

text \<open>\<^verbatim>\<open>WaveFunction.ur2\<close>\<close>

definition ur2 :: "Extern \<Rightarrow> PWWaveFunction \<Rightarrow> error + real ndarray \<times> PWWaveFunction" where
  "ur2 E w =
     (case ur E w of
        Inl e \<Rightarrow> Inl e
      | Inr (u, w') \<Rightarrow> Inr (\<lparr>ashape = ashape u, adata = map (\<lambda>z. Re (cnj z * z)) (adata u)\<rparr>, w'))"

text \<open>\<^verbatim>\<open>PWWaveFunction.norm2\<close>\<close>

definition norm2 :: "Extern \<Rightarrow> PWWaveFunction \<Rightarrow> string \<Rightarrow> error + real \<times> PWWaveFunction" where
  "norm2 E w space =
     (let space = lower space in
      if space = ''g'' then
        (case vdot (ug w) (ug w) of Inl e \<Rightarrow> Inl e | Inr z \<Rightarrow> Inr (Re z, w))
      else if space = ''r'' then
        (case mesh w of
           Inl e \<Rightarrow> Inl e
         | Inr m \<Rightarrow>
             (case ur2 E w of
                Inl e \<Rightarrow> Inl e
              | Inr (a, w') \<Rightarrow> Inr (integrate E m a, w')))
      else Inl (ValueError (''Wrong space: '' @ space)))"

text \<open>
  \<^verbatim>\<open>PWWaveFunction.braket\<close>. The result is the scalar product and the two objects after
  the call (the mode \<^verbatim>\<open>r\<close> fills their caches). When both arguments are one object,
  the second read of \<^verbatim>\<open>ur\<close> finds the cache that the first has filled; the transform
  is a function of the coefficients, so the value read is the same.
\<close>

definition braket ::
  "Extern \<Rightarrow> PWWaveFunction \<Rightarrow> PWWaveFunction \<Rightarrow> string
     \<Rightarrow> error + complex \<times> PWWaveFunction \<times> PWWaveFunction" where
  "braket E w other space =
     (let space = lower space in
      if space = ''g'' then
        (case mesh w of
           Inl e \<Rightarrow> Inl e
         | Inr m \<Rightarrow>
             (case vdot (tofftmesh E (gsphere w) m (ug w)) (tofftmesh E (gsphere other) m (ug other)) of
                Inl e \<Rightarrow> Inl e
              | Inr z \<Rightarrow> Inr (z, w, other)))
      else if space = ''gsphere'' then
        (case vdot (ug w) (ug other) of Inl e \<Rightarrow> Inl e | Inr z \<Rightarrow> Inr (z, w, other))
      else if space = ''r'' then
        (case ur E w of
           Inl e \<Rightarrow> Inl e
         | Inr (u1, w') \<Rightarrow>
             (case ur E other of
                Inl e \<Rightarrow> Inl e
              | Inr (u2, other') \<Rightarrow>
                  (case vdot u1 u2 of
                     Inl e \<Rightarrow> Inl e
                   | Inr z \<Rightarrow>
                       (case mesh w' of
                          Inl e \<Rightarrow> Inl e
                        | Inr m \<Rightarrow> Inr (z * of_real (dv m), w', other')))))
      else Inl (ValueError (''Wrong space: '' @ space)))"

text \<open>
  \<^verbatim>\<open>WaveFunction.__eq__\<close>; \<open>other\<close> is \<open>None\<close> for the \<^verbatim>\<open>None\<close> of Python. The spheres
  are compared as values.
\<close>

definition wave_eq :: "PWWaveFunction \<Rightarrow> PWWaveFunction option \<Rightarrow> error + bool" where
  "wave_eq w other =
     (case other of
        None \<Rightarrow> Inr False
      | Some w2 \<Rightarrow> if gsphere w \<noteq> gsphere w2 then Inr False else allclose (ug w) (ug w2))"

text \<open>
  The phase of the G-vector \<open>g\<close> in \<^verbatim>\<open>rotate\<close>:
  \<^verbatim>\<open>np.exp(-2j * np.pi * (np.dot(g + rot_kpt, symmop.tau)))\<close>
\<close>

definition phase :: "gvec \<Rightarrow> vec3 \<Rightarrow> vec3 \<Rightarrow> complex" where
  "phase g rot_kpt t = exp (- 2 * \<i> * of_real pi * of_real (dot3 (gadd g rot_kpt) t))"

text \<open>
  The loop of \<^verbatim>\<open>rotate\<close> over \<^verbatim>\<open>ig in range(self.npw)\<close>:
  \<^verbatim>\<open>rot_ug[:, ig] = ug[:, ig] * np.exp(...)\<close>. Reading \<^verbatim>\<open>ug[:, ig]\<close> or
  \<^verbatim>\<open>rot_gvecs[ig]\<close> out of bounds raises IndexError and ends the loop.
\<close>

fun rotate_loop ::
  "complex ndarray \<Rightarrow> gvec list \<Rightarrow> vec3 \<Rightarrow> vec3 \<Rightarrow> nat list \<Rightarrow> complex ndarray
     \<Rightarrow> error + complex ndarray" where
  "rotate_loop ug' rot_gvecs rot_kpt t [] rot_ug = Inr rot_ug"
| "rotate_loop ug' rot_gvecs rot_kpt t (ig # igs) rot_ug =
     (case get_col ug' ig of
        Inl e \<Rightarrow> Inl e
      | Inr col \<Rightarrow>
          if length rot_gvecs \<le> ig then Inl IndexError
          else
            (case set_col rot_ug ig (map (\<lambda>c. c * phase (rot_gvecs ! ig) rot_kpt t) col) of
               Inl e \<Rightarrow> Inl e
             | Inr rot_ug' \<Rightarrow> rotate_loop ug' rot_gvecs rot_kpt t igs rot_ug'))"

text \<open>\<^verbatim>\<open>PWWaveFunction.rotate\<close>\<close>

definition rotate :: "Extern \<Rightarrow> PWWaveFunction \<Rightarrow> Symmetry \<Rightarrow> error + PWWaveFunction" where
  "rotate E w symmop =
     (if nspinor w \<noteq> 1 then Inl (ValueError ''Spinor rotation not available yet.'')
      else
        let rot_gsphere = gsphere_rotate E (gsphere w) symmop in
        (case
           (if \<not> allclose3 (tau symmop) zeros3
            then rotate_loop (ug w) (gvecs rot_gsphere) (kpoint rot_gsphere) (tau symmop)
                   [0..<npw w] (empty_like (ug w))
            else Inr (copy (ug w)))
         of
           Inl e \<Rightarrow> Inl e
         | Inr rot_ug \<Rightarrow>
             let rot_spin =
               (if nspinor w = 1
                then (if is_fm symmop then spin w else (spin w + 1) mod 2)
                else spin w)
             in PWWaveFunction_init (nspinor w) rot_spin (band w) rot_gsphere rot_ug))"

subsection \<open>The invariant of the class\<close>

text \<open>
  What the assertions of the constructor establish and every method keeps: the coefficient
  array is two-dimensional with the shape \<^verbatim>\<open>(nspinor, npw)\<close>.
\<close>

definition wave_inv :: "PWWaveFunction \<Rightarrow> bool" where
  "wave_inv w \<longleftrightarrow> array_ok (ug w) \<and> map int (ashape (ug w)) = shape w"

subsection \<open>The result of rotate in closed form, and concrete objects\<close>

text \<open>
  The array that \<^verbatim>\<open>rotate\<close> hands to the constructor, in closed form: the copy, or
  every coefficient times its phase. The lemma \<open>rotate_result\<close> proves that the loop of
  the source computes it.
\<close>

definition rotated_ug :: "Extern \<Rightarrow> PWWaveFunction \<Rightarrow> Symmetry \<Rightarrow> complex ndarray" where
  "rotated_ug E w s =
     (let rg = gsphere_rotate E (gsphere w) s in
      if allclose3 (tau s) zeros3 then ug w
      else \<lparr>ashape = [1, npw w],
             adata = map (\<lambda>i. adata (ug w) ! i * phase (gvecs rg ! i) (kpoint rg) (tau s)) [0..<npw w]\<rparr>)"

text \<open>
  Concrete collaborators and objects, at which the theorems are instantiated. The example
  rotation of a sphere applies the integer rotation matrix of the operation to every
  G-vector and to the k-point; the example transforms are identities.
\<close>

fun ex_mat_vec :: "int list list \<Rightarrow> 'a::comm_ring_1 \<times> 'a \<times> 'a \<Rightarrow> 'a \<times> 'a \<times> 'a" where
  "ex_mat_vec [ [a, b, c], [d, e, f], [g, h, i] ] (x, y, z) =
     (of_int a * x + of_int b * y + of_int c * z,
      of_int d * x + of_int e * y + of_int f * z,
      of_int g * x + of_int h * y + of_int i * z)"
| "ex_mat_vec m v = v"

definition ex_extern :: Extern where
  "ex_extern =
     \<lparr>gsphere_rotate = (\<lambda>g s. g\<lparr>kpoint := ex_mat_vec (rotation s) (kpoint g),
                                   gvecs := map (ex_mat_vec (rotation s)) (gvecs g)\<rparr>),
      tofftmesh = (\<lambda>g m a. a),
      fft_g2r = (\<lambda>m a. a),
      integrate = (\<lambda>m a. sum_list (adata a) * dv m)\<rparr>"

text \<open>
  A sphere with four G-vectors, the first of them zero, a single-spinor wavefunction on it
  (the result of the constructor, see \<open>ex_wave_init\<close>), and three operations with the
  identity rotation: the identity, an anti-ferromagnetic one with the translation
  \<open>(1/2, 0, 0)\<close>, and one with the translation \<open>(1e-9, 0, 0)\<close>.
\<close>

definition ex_sphere :: GSphere where
  "ex_sphere = \<lparr>ecut = 1, kpoint = (0, 0, 0), gvecs = [(0, 0, 0), (1, 0, 0), (0, 1, 0), (0, 0, 1)]\<rparr>"

definition ex_ug :: "complex ndarray" where
  "ex_ug = \<lparr>ashape = [1, 4], adata = [1, 1, 0, 0]\<rparr>"

definition ex_wave :: PWWaveFunction where
  "ex_wave = \<lparr>nspinor = 1, spin = 0, band = 0, gsphere = ex_sphere, ug = ex_ug,
              ur_attr = None, mesh_attr = None\<rparr>"

definition ex_rotation :: "int list list" where
  "ex_rotation = [ [1, 0, 0], [0, 1, 0], [0, 0, 1] ]"

definition ex_identity :: Symmetry where
  "ex_identity = \<lparr>rotation = ex_rotation, tau = (0, 0, 0), is_fm = True\<rparr>"

definition ex_afm :: Symmetry where
  "ex_afm = \<lparr>rotation = ex_rotation, tau = (1 / 2, 0, 0), is_fm = False\<rparr>"

definition ex_tiny :: Symmetry where
  "ex_tiny = \<lparr>rotation = ex_rotation, tau = (1 / 10 ^ 9, 0, 0), is_fm = True\<rparr>"

text \<open>
  Two more arrays, of the right and of a wrong shape for \<open>ex_wave\<close>, and a wavefunction
  with two spinor components.
\<close>

definition ex_ug2 :: "complex ndarray" where
  "ex_ug2 = \<lparr>ashape = [1, 4], adata = [0, 1, 0, 0]\<rparr>"

definition ex_ug3 :: "complex ndarray" where
  "ex_ug3 = \<lparr>ashape = [1, 3], adata = [1, 0, 0]\<rparr>"

definition ex_spinor :: PWWaveFunction where
  "ex_spinor = \<lparr>nspinor = 2, spin = 0, band = 0, gsphere = ex_sphere,
     ug = \<lparr>ashape = [2, 4], adata = [1, 0, 0, 0, 0, 1, 0, 0]\<rparr>, ur_attr = None, mesh_attr = None\<rparr>"

text \<open>An anti-ferromagnetic operation without translation, and a wavefunction with spin 2.\<close>

definition ex_afm0 :: Symmetry where
  "ex_afm0 = \<lparr>rotation = ex_rotation, tau = (0, 0, 0), is_fm = False\<rparr>"

definition ex_wave_spin2 :: PWWaveFunction where
  "ex_wave_spin2 = ex_wave\<lparr>spin := 2\<rparr>"

section \<open>Verification\<close>

lemma lower_char_idem: "lower_char (lower_char c) = lower_char c"
  by (auto simp: lower_char_def)

lemma lower_idem: "lower (lower s) = lower s"
  by (simp add: lower_def lower_char_idem)

lemma copy_id: "copy (a :: 'a ndarray) = a"
  by (simp add: copy_def)

lemma sum_cnj_self:
  "sum_list (map (\<lambda>(x, y). cnj x * y) (zip xs xs)) = of_real (sum_list (map (\<lambda>c. (cmod c)\<^sup>2) xs))"
  by (induction xs) (simp_all add: mult.commute complex_mult_cnj cmod_power2)

lemma vdot_self: "vdot a a = Inr (of_real (sum_list (map (\<lambda>c. (cmod c)\<^sup>2) (adata a))))"
  by (simp add: vdot_def sum_cnj_self)

lemma sum_sq_nonneg: "0 \<le> sum_list (map (\<lambda>c. (cmod c)\<^sup>2) xs)"
  by (induction xs) simp_all

lemma isclose_refl: "isclose a a"
  by (simp add: isclose_def atol_def rtol_def)

lemma allclose3_zeros: "allclose3 zeros3 zeros3"
  by (simp add: zeros3_def isclose_refl)

lemma phase_cis: "phase g k t = cis (- (2 * pi * dot3 (gadd g k) t))"
  by (simp add: phase_def cis_conv_exp mult_ac)

lemma phase_unit: "cnj (phase g k t) * phase g k t = 1"
  by (simp add: phase_cis cis_cnj cis_mult)

lemma shape_2d_clean: 
  assumes "map int (ashape a) = [r, int c]" shows "ashape a = [nat r, c]"
proof -
  from assms have "length (ashape a) = 2"
    by (metis length_map length_Cons list.size(3) One_nat_def Suc_1)
  then obtain x y where xy: "ashape a = [x, y]"
    by (cases "ashape a"; simp) (metis length_0_conv length_Suc_conv)
  with assms show ?thesis by auto
qed

lemma inv_shape: "wave_inv w \<Longrightarrow> nspinor w = 1 \<Longrightarrow> ashape (ug w) = [1, npw w] \<and> length (adata (ug w)) = npw w"
  using shape_2d_clean [of "ug w" "nspinor w" "npw w"]
  by (simp add: wave_inv_def shape_def array_ok_def)

lemma get_col_row: "ashape u = [1, n] \<Longrightarrow> ig < n \<Longrightarrow> get_col u ig = Inr [adata u ! ig]"
  by (simp add: get_col_def)

lemma set_col_row: "ashape r = [1, n] \<Longrightarrow> ig < n \<Longrightarrow> set_col r ig [v] = Inr (r\<lparr>adata := (adata r)[ig := v]\<rparr>)"
  by (simp add: set_col_def)

lemma rotate_loop_row:
  assumes "ashape u = [1, n]" and "n \<le> length gv"
  shows "ashape r = [1, n] \<Longrightarrow> length (adata r) = n \<Longrightarrow> set igs \<subseteq> {..<n} \<Longrightarrow>
    \<exists>r'. rotate_loop u gv k t igs r = Inr r' \<and> ashape r' = [1, n] \<and> length (adata r') = n \<and>
      (\<forall>i<n. adata r' ! i = (if i \<in> set igs then adata u ! i * phase (gv ! i) k t else adata r ! i))"
proof (induction igs arbitrary: r)
  case Nil
  then show ?case by simp
next
  case (Cons ig igs)
  let ?v = "adata u ! ig * phase (gv ! ig) k t"
  let ?r1 = "r\<lparr>adata := (adata r)[ig := ?v]\<rparr>"
  from Cons.prems have ig: "ig < n" and igs: "set igs \<subseteq> {..<n}" by auto
  have step: "rotate_loop u gv k t (ig # igs) r = rotate_loop u gv k t igs ?r1"
    using assms ig Cons.prems(1) by (simp add: get_col_row set_col_row)
  have "ashape ?r1 = [1, n]" "length (adata ?r1) = n"
    using Cons.prems by simp_all
  from Cons.IH [OF this igs] obtain r' where r':
    "rotate_loop u gv k t igs ?r1 = Inr r'" "ashape r' = [1, n]" "length (adata r') = n"
    "\<forall>i<n. adata r' ! i = (if i \<in> set igs then adata u ! i * phase (gv ! i) k t else adata ?r1 ! i)"
    by blast
  have "\<forall>i<n. adata r' ! i = (if i \<in> set (ig # igs) then adata u ! i * phase (gv ! i) k t else adata r ! i)"
    using r'(4) Cons.prems(2) ig by (auto simp: nth_list_update)
  with step r' show ?case by simp
qed

lemma rotate_loop_all:
  assumes "ashape u = [1, n]" and "length (adata u) = n" and "n \<le> length gv"
    and "ashape r = [1, n]" and "length (adata r) = n"
  shows "rotate_loop u gv k t [0..<n] r =
    Inr \<lparr>ashape = [1, n], adata = map (\<lambda>i. adata u ! i * phase (gv ! i) k t) [0..<n]\<rparr>"
proof -
  have "set [0..<n] \<subseteq> {..<n}"
    by auto
  with assms(4,5) obtain r' where r':
    "rotate_loop u gv k t [0..<n] r = Inr r'" "ashape r' = [1, n]" "length (adata r') = n"
    "\<forall>i<n. adata r' ! i = adata u ! i * phase (gv ! i) k t"
    using rotate_loop_row [OF assms(1,3), of r "[0..<n]" k t] by auto
  have "adata r' = map (\<lambda>i. adata u ! i * phase (gv ! i) k t) [0..<n]"
    using r'(3,4) by (intro nth_equalityI) simp_all
  with r'(2) have "r' = \<lparr>ashape = [1, n], adata = map (\<lambda>i. adata u ! i * phase (gv ! i) k t) [0..<n]\<rparr>"
    by simp
  with r'(1) show ?thesis by simp
qed

lemma rotate_result:
  assumes "wave_inv w" and "nspinor w = 1"
    and "gsphere_npw (gsphere_rotate E (gsphere w) s) = npw w"
  shows "rotate E w s =
    Inr \<lparr>nspinor = 1, spin = (if is_fm s then spin w else (spin w + 1) mod 2), band = band w,
         gsphere = gsphere_rotate E (gsphere w) s, ug = rotated_ug E w s,
         ur_attr = None, mesh_attr = None\<rparr>"
proof -
  let ?rg = "gsphere_rotate E (gsphere w) s"
  from inv_shape [OF assms(1,2)] have sh: "ashape (ug w) = [1, npw w]" and len: "length (adata (ug w)) = npw w"
    by simp_all
  have gv: "npw w \<le> length (gvecs ?rg)"
    using assms(3) by (simp add: gsphere_npw_def)
  show ?thesis
  proof (cases "allclose3 (tau s) zeros3")
    case True
    then show ?thesis
      using assms sh by (simp add: rotate_def rotated_ug_def copy_id PWWaveFunction_init_def ndim_def)
  next
    case False
    have "ashape (empty_like (ug w)) = [1, npw w]" "length (adata (empty_like (ug w))) = npw w"
      using sh len by (simp_all add: empty_like_def)
    with False show ?thesis
      using assms rotate_loop_all [OF sh len gv]
      by (simp add: rotate_def rotated_ug_def copy_id PWWaveFunction_init_def ndim_def Let_def)
  qed
qed

lemma ex_rotate_id: "rotation s = ex_rotation \<Longrightarrow> gsphere_rotate ex_extern ex_sphere s = ex_sphere"
  by (simp add: ex_extern_def ex_sphere_def ex_rotation_def)

lemma ex_wave_init: "PWWaveFunction_init 1 0 0 ex_sphere ex_ug = Inr ex_wave"
  by (simp add: PWWaveFunction_init_def ex_wave_def ex_ug_def ex_sphere_def ndim_def gsphere_npw_def copy_def)

lemma ex_wave_inv: "wave_inv ex_wave"
  by (simp add: wave_inv_def ex_wave_def ex_ug_def ex_sphere_def array_ok_def shape_def npw_def gsphere_npw_def)

lemma ex_tiny_close: "allclose3 (tau ex_tiny) zeros3"
  by (simp add: ex_tiny_def zeros3_def isclose_def atol_def rtol_def)

lemma ex_afm_far: "\<not> allclose3 (tau ex_afm) zeros3"
  by (simp add: ex_afm_def zeros3_def isclose_def atol_def rtol_def)

lemma tiny_phase: "phase (1, 0, 0) (0, 0, 0) (1 / 10 ^ 9, 0, 0) \<noteq> 1"
proof
  assume "phase (1, 0, 0) (0, 0, 0) (1 / 10 ^ 9, 0, 0) = 1"
  then have "Re (cis (- (2 * pi * (1 / 10 ^ 9)))) = 1"
    by (simp add: phase_cis)
  then have "cos (2 * pi * (1 / 10 ^ 9)) = 1"
    by simp
  then obtain n :: int where "2 * pi * (1 / 10 ^ 9) = of_int n * 2 * pi"
    unfolding cos_one_2pi_int by blast
  then have "of_int n * (10 ^ 9 :: real) = 1"
    by simp
  then have "of_int (n * 10 ^ 9) = (of_int 1 :: real)"
    by simp
  then have "n * 10 ^ 9 = 1"
    unfolding of_int_eq_iff .
  then show False
    by (simp add: zmult_eq_1_iff)
qed

lemma lower_g: "lower ''g'' = ''g''"
  by code_simp

lemma lower_r: "lower ''r'' = ''r''"
  by code_simp

lemma lower_gsphere: "lower ''gsphere'' = ''gsphere''"
  by code_simp

lemma lower_G: "lower ''G'' = ''g''"
  by code_simp

lemma lower_GSPHERE: "lower ''GSPHERE'' = ''gsphere''"
  by code_simp

lemma init_ok:
  "map int (ashape u) = [ns, int (gsphere_npw g)] \<Longrightarrow>
   PWWaveFunction_init ns sp b g u =
     Inr \<lparr>nspinor = ns, spin = sp, band = b, gsphere = g, ug = u, ur_attr = None, mesh_attr = None\<rparr>"
  using shape_2d_clean [of u ns "gsphere_npw g"]
  by (auto simp: PWWaveFunction_init_def ndim_def copy_id)

lemma init_fails:
  "map int (ashape u) \<noteq> [ns, int (gsphere_npw g)] \<Longrightarrow> PWWaveFunction_init ns sp b g u = Inl AssertionError"
proof -
  assume ne: "map int (ashape u) \<noteq> [ns, int (gsphere_npw g)]"
  show ?thesis
  proof (cases "ndim u = 2")
    case False
    then show ?thesis by (simp add: PWWaveFunction_init_def)
  next
    case True
    then obtain x y where xy: "ashape u = [x, y]"
      unfolding ndim_def by (cases "ashape u"; simp) (metis length_0_conv length_Suc_conv Suc_1 One_nat_def)
    with ne show ?thesis by (auto simp: PWWaveFunction_init_def ndim_def)
  qed
qed

lemma init_inv: "array_ok u \<Longrightarrow> PWWaveFunction_init ns sp b g u = Inr w \<Longrightarrow> wave_inv w"
  using init_ok [of u ns g sp b] init_fails [of u ns g sp b]
  by (cases "map int (ashape u) = [ns, int (gsphere_npw g)]")
     (auto simp: wave_inv_def shape_def npw_def)

lemma set_mesh_inv: "wave_inv w \<Longrightarrow> wave_inv (set_mesh w m)"
  by (simp add: wave_inv_def set_mesh_def delete_ur_def shape_def npw_def)

lemma ur_inv: "wave_inv w \<Longrightarrow> ur E w = Inr (u, w') \<Longrightarrow> wave_inv w'"
  by (auto simp: wave_inv_def ur_def shape_def npw_def split: option.splits sum.splits)

lemma set_ug_inv: "wave_inv w \<Longrightarrow> wave_inv (snd (set_ug w u))"
  by (simp add: set_ug_def)

lemma rotated_ug_shape:
  "wave_inv w \<Longrightarrow> nspinor w = 1 \<Longrightarrow>
   ashape (rotated_ug E w s) = [1, npw w] \<and> length (adata (rotated_ug E w s)) = npw w"
  using inv_shape [of w] by (simp add: rotated_ug_def Let_def)

lemma rotate_inv:
  assumes "wave_inv w" and "nspinor w = 1"
    and "gsphere_npw (gsphere_rotate E (gsphere w) s) = npw w"
    and "rotate E w s = Inr w'"
  shows "wave_inv w' \<and> nspinor w' = 1"
  using assms rotate_result [OF assms(1-3)] rotated_ug_shape [OF assms(1,2), of E s]
  by (auto simp: wave_inv_def shape_def npw_def array_ok_def)

lemma rotated_ug_sum:
  assumes "wave_inv w" and "nspinor w = 1"
  shows "sum_list (map (\<lambda>c. (cmod c)\<^sup>2) (adata (rotated_ug E w s))) =
         sum_list (map (\<lambda>c. (cmod c)\<^sup>2) (adata (ug w)))"
proof (cases "allclose3 (tau s) zeros3")
  case True
  then show ?thesis by (simp add: rotated_ug_def)
next
  case False
  let ?rg = "gsphere_rotate E (gsphere w) s"
  let ?n = "npw w"
  from inv_shape [OF assms] have len: "length (adata (ug w)) = ?n" by simp
  have "map (\<lambda>c. (cmod c)\<^sup>2) (adata (rotated_ug E w s)) =
        map (\<lambda>i. (cmod (adata (ug w) ! i))\<^sup>2) [0..<?n]"
    using False by (simp add: rotated_ug_def Let_def comp_def norm_mult phase_cis)
  also have "\<dots> = map (\<lambda>c. (cmod c)\<^sup>2) (map (\<lambda>i. adata (ug w) ! i) [0..<length (adata (ug w))])"
    by (simp add: len comp_def)
  also have "\<dots> = map (\<lambda>c. (cmod c)\<^sup>2) (adata (ug w))"
    by (simp only: map_nth)
  finally show ?thesis by simp
qed

text \<open>
  Claim C8. A wavefunction whose number of spinor components is not 1 cannot be rotated:
  \<^verbatim>\<open>rotate\<close> raises before it touches the G-sphere or the coefficients, whatever the
  symmetry operation and whatever the collaborators are. The exception of the source is
  a \<^verbatim>\<open>ValueError\<close> with the message \<^verbatim>\<open>Spinor rotation not available yet.\<close>; this is the error the
  specification calls NotImplemented.
\<close>

theorem rotate_spinor_unavailable:
  "nspinor w \<noteq> 1 \<Longrightarrow> rotate E w symmop = Inl (ValueError ''Spinor rotation not available yet.'')"
  by (simp add: rotate_def)

theorem rotate_spinor_unavailable_witness:
  "nspinor ex_spinor \<noteq> 1 \<and>
   rotate ex_extern ex_spinor ex_afm = Inl (ValueError ''Spinor rotation not available yet.'') \<and>
   rotate ex_extern ex_spinor ex_identity = Inl (ValueError ''Spinor rotation not available yet.'')"
proof -
  have h: "nspinor ex_spinor \<noteq> 1" by (simp add: ex_spinor_def)
  show ?thesis
    using h rotate_spinor_unavailable [OF h, of ex_extern ex_afm]
      rotate_spinor_unavailable [OF h, of ex_extern ex_identity] by simp
qed

text \<open>
  Claim C5. For coefficients of matching shape the constructor succeeds and stores them;
  \<^verbatim>\<open>norm2\<close> in the mode \<^verbatim>\<open>g\<close> is the sum of the squared magnitudes of all coefficients (all spinor
  components, all G-vectors); \<^verbatim>\<open>braket\<close> of \<open>w\<close> with itself in the mode \<^verbatim>\<open>gsphere\<close> is the same number, so it is
  real; and the number is not negative.
\<close>

theorem norm2_g_sum_of_squares:
  "map int (ashape u) = [ns, int (gsphere_npw g)] \<Longrightarrow>
   \<exists>w. PWWaveFunction_init ns sp b g u = Inr w \<and> ug w = u \<and>
       norm2 E w ''g'' = Inr (sum_list (map (\<lambda>c. (cmod c)\<^sup>2) (adata u)), w) \<and>
       braket E w w ''gsphere'' = Inr (of_real (sum_list (map (\<lambda>c. (cmod c)\<^sup>2) (adata u))), w, w) \<and>
       0 \<le> sum_list (map (\<lambda>c. (cmod c)\<^sup>2) (adata u))"
  by (simp add: init_ok norm2_def braket_def lower_g lower_gsphere vdot_self sum_sq_nonneg)

theorem norm2_g_sum_of_squares_witness:
  "map int (ashape ex_ug) = [1, int (gsphere_npw ex_sphere)] \<and>
   PWWaveFunction_init 1 0 0 ex_sphere ex_ug = Inr ex_wave \<and>
   norm2 ex_extern ex_wave ''g'' = Inr (2, ex_wave) \<and>
   braket ex_extern ex_wave ex_wave ''gsphere'' = Inr (2, ex_wave, ex_wave)"
proof -
  have h: "map int (ashape ex_ug) = [1, int (gsphere_npw ex_sphere)]"
    by (simp add: ex_ug_def ex_sphere_def gsphere_npw_def)
  from norm2_g_sum_of_squares [OF h, of 0 0 ex_extern] h show ?thesis
    by (simp add: ex_wave_init) (simp add: ex_ug_def)
qed

text \<open>
  Claim C7. An array whose shape is not \<^verbatim>\<open>(nspinor, npw)\<close> is refused with an
  AssertionError (the ShapeMismatch of the specification), by the constructor and by
  \<^verbatim>\<open>set_ug\<close>; after a refused \<^verbatim>\<open>set_ug\<close> the object is what it was, in particular
  its coefficient array and its cached \<^verbatim>\<open>_ur\<close>.
\<close>

theorem wrong_shape_is_refused:
  "(map int (ashape u) \<noteq> [ns, int (gsphere_npw g)] \<longrightarrow>
      PWWaveFunction_init ns sp b g u = Inl AssertionError) \<and>
   (map int (ashape u) \<noteq> shape w \<longrightarrow>
      set_ug w u = (Some AssertionError, w) \<and>
      ug (snd (set_ug w u)) = ug w \<and> ur_attr (snd (set_ug w u)) = ur_attr w)"
  by (simp add: init_fails set_ug_def)

theorem wrong_shape_is_refused_witness:
  "map int (ashape ex_ug3) \<noteq> [1, int (gsphere_npw ex_sphere)] \<and>
   PWWaveFunction_init 1 0 0 ex_sphere ex_ug3 = Inl AssertionError \<and>
   map int (ashape ex_ug3) \<noteq> shape ex_wave \<and>
   set_ug ex_wave ex_ug3 = (Some AssertionError, ex_wave)"
proof -
  have h1: "map int (ashape ex_ug3) \<noteq> [1, int (gsphere_npw ex_sphere)]"
    by (simp add: ex_ug3_def ex_sphere_def gsphere_npw_def)
  have h2: "map int (ashape ex_ug3) \<noteq> shape ex_wave"
    by (simp add: ex_ug3_def shape_def npw_def ex_wave_def ex_sphere_def gsphere_npw_def)
  from wrong_shape_is_refused [of ex_ug3 1 ex_sphere 0 0 ex_wave] h1 h2 show ?thesis
    by simp
qed

text \<open>
  Claim C1 says that \<^verbatim>\<open>set_ug\<close> with an array of matching shape succeeds, replaces the
  coefficients and discards the cache. The source does not: the assignment goes to
  \<^verbatim>\<open>set._ug\<close> instead of \<^verbatim>\<open>self._ug\<close>, so the call raises a TypeError and the
  coefficients stay. Evaluated on a wavefunction with four G-vectors and the array
  with the single row \<open>[0, 1, 0, 0]\<close>:
\<close>

theorem set_ug_matching_shape_raises:
  "map int (ashape ex_ug2) = shape ex_wave \<and>
   set_ug ex_wave ex_ug2 =
     (Some (TypeError ''cannot set attributes of built-in/extension type set''), ex_wave) \<and>
   ug (snd (set_ug ex_wave ex_ug2)) \<noteq> ex_ug2"
  by (simp add: set_ug_def shape_def npw_def gsphere_npw_def ex_wave_def ex_sphere_def ex_ug_def ex_ug2_def)

lemma allclose_self:
  assumes "ashape a = [r, c]" shows "allclose a a = Inr True"
  using assms by (simp add: allclose_def bdim_def isclose_refl list_all_iff)

lemma wave_eq_same_ug:
  assumes "wave_inv w" and "gsphere w' = gsphere w" and "ug w' = ug w"
  shows "wave_eq w' (Some w) = Inr True \<and> wave_eq w (Some w') = Inr True"
proof -
  from assms(1) have "ashape (ug w) = [nat (nspinor w), npw w]"
    using shape_2d_clean [of "ug w" "nspinor w" "npw w"] by (simp add: wave_inv_def shape_def)
  then have "allclose (ug w) (ug w) = Inr True"
    by (rule allclose_self)
  with assms(2,3) show ?thesis by (simp add: wave_eq_def)
qed

lemma elem_row: "ashape a = [1, n] \<Longrightarrow> elem a 0 j = adata a ! j"
  by (simp add: elem_def)

text \<open>
  Claim C2, amended. For a single-spinor wavefunction and a symmetry operation whose
  translation \<^verbatim>\<open>tau\<close> is not close to zero in the sense of \<^verbatim>\<open>np.allclose\<close> (a component
  is larger than \<open>1e-8\<close> in absolute value), and a rotated G-sphere that has as many
  vectors as the original one, \<^verbatim>\<open>rotate\<close> returns a wavefunction on the rotated sphere
  whose coefficient at every spinor component and every index \<open>ig\<close> is the coefficient of
  the original at \<open>ig\<close> times \<open>exp(-2 pi i (gr + kr) . tau)\<close>, with \<open>gr\<close> the vector
  \<open>ig\<close> of the rotated sphere and \<open>kr\<close> its k-point: one phase per G-vector.
\<close>

theorem rotate_phase_per_gvector:
  assumes "wave_inv w" and "nspinor w = 1"
    and "\<not> allclose3 (tau s) zeros3"
    and "gsphere_npw (gsphere_rotate E (gsphere w) s) = npw w"
  shows "\<exists>w'. rotate E w s = Inr w' \<and>
           gsphere w' = gsphere_rotate E (gsphere w) s \<and>
           (\<forall>i < nat (nspinor w). \<forall>ig < npw w.
              elem (ug w') i ig =
              elem (ug w) i ig * phase (gvecs (gsphere w') ! ig) (kpoint (gsphere w')) (tau s))"
proof -
  from inv_shape [OF assms(1,2)] have sh: "ashape (ug w) = [1, npw w]" by simp
  have "\<forall>ig < npw w. elem (rotated_ug E w s) 0 ig =
      elem (ug w) 0 ig * phase (gvecs (gsphere_rotate E (gsphere w) s) ! ig)
        (kpoint (gsphere_rotate E (gsphere w) s)) (tau s)"
    using assms(3) sh by (simp add: rotated_ug_def elem_def Let_def)
  then show ?thesis
    using assms(2) by (simp add: rotate_result [OF assms(1,2,4)])
qed

theorem rotate_phase_per_gvector_witness:
  "wave_inv ex_wave \<and> nspinor ex_wave = 1 \<and> \<not> allclose3 (tau ex_afm) zeros3 \<and>
   gsphere_npw (gsphere_rotate ex_extern (gsphere ex_wave) ex_afm) = npw ex_wave \<and>
   (\<exists>w'. rotate ex_extern ex_wave ex_afm = Inr w' \<and> gsphere w' = ex_sphere \<and>
      elem (ug w') 0 0 = 1 * phase (0, 0, 0) (0, 0, 0) (1 / 2, 0, 0) \<and>
      elem (ug w') 0 1 = 1 * phase (1, 0, 0) (0, 0, 0) (1 / 2, 0, 0) \<and>
      elem (ug w') 0 2 = 0 * phase (0, 1, 0) (0, 0, 0) (1 / 2, 0, 0) \<and>
      elem (ug w') 0 3 = 0 * phase (0, 0, 1) (0, 0, 0) (1 / 2, 0, 0))"
proof -
  have g: "gsphere ex_wave = ex_sphere" and n: "nspinor ex_wave = 1" and p: "npw ex_wave = 4"
    by (simp_all add: ex_wave_def npw_def gsphere_npw_def ex_sphere_def)
  have r: "gsphere_rotate ex_extern (gsphere ex_wave) ex_afm = ex_sphere"
    by (simp add: g ex_rotate_id ex_afm_def)
  have h: "gsphere_npw (gsphere_rotate ex_extern (gsphere ex_wave) ex_afm) = npw ex_wave"
    by (simp add: r p) (simp add: gsphere_npw_def ex_sphere_def)
  from rotate_phase_per_gvector [OF ex_wave_inv n ex_afm_far h] obtain w' where w':
    "rotate ex_extern ex_wave ex_afm = Inr w'" "gsphere w' = ex_sphere"
    "\<forall>i < nat (nspinor ex_wave). \<forall>ig < npw ex_wave.
        elem (ug w') i ig =
        elem (ug ex_wave) i ig * phase (gvecs (gsphere w') ! ig) (kpoint (gsphere w')) (tau ex_afm)"
    unfolding r by blast
  have e: "elem (ug ex_wave) 0 0 = 1" "elem (ug ex_wave) 0 1 = 1"
    "elem (ug ex_wave) 0 2 = 0" "elem (ug ex_wave) 0 3 = 0"
    by (simp_all add: elem_def ex_wave_def ex_ug_def)
  have "elem (ug w') 0 0 = 1 * phase (0, 0, 0) (0, 0, 0) (1 / 2, 0, 0)"
    using w'(3) [rule_format, of 0 0] e by (simp add: n p w'(2)) (simp add: ex_sphere_def ex_afm_def)
  moreover have "elem (ug w') 0 1 = 1 * phase (1, 0, 0) (0, 0, 0) (1 / 2, 0, 0)"
    using w'(3) [rule_format, of 0 1] e by (simp add: n p w'(2)) (simp add: ex_sphere_def ex_afm_def)
  moreover have "elem (ug w') 0 2 = 0 * phase (0, 1, 0) (0, 0, 0) (1 / 2, 0, 0)"
    using w'(3) [rule_format, of 0 2] e by (simp add: n p w'(2))
  moreover have "elem (ug w') 0 3 = 0 * phase (0, 0, 1) (0, 0, 0) (1 / 2, 0, 0)"
    using w'(3) [rule_format, of 0 3] e by (simp add: n p w'(2))
  ultimately show ?thesis
    using ex_wave_inv n ex_afm_far h w'(1,2) by simp
qed

text \<open>
  Claim C2 as stated asks for the phase whenever \<^verbatim>\<open>tau\<close> is not the zero vector. The source
  tests \<^verbatim>\<open>np.allclose(symmop.tau, np.zeros(3))\<close>: with \<open>tau = (1e-9, 0, 0)\<close> the
  coefficients are copied, and the coefficient of the G-vector \<open>(1, 0, 0)\<close> is not the
  original times the phase.
\<close>

theorem rotate_tiny_translation_counterexample:
  "nspinor ex_wave = 1 \<and> tau ex_tiny \<noteq> zeros3 \<and>
   rotate ex_extern ex_wave ex_tiny = Inr ex_wave \<and>
   gvecs (gsphere ex_wave) ! 1 = (1, 0, 0) \<and> kpoint (gsphere ex_wave) = (0, 0, 0) \<and>
   elem (ug ex_wave) 0 1 \<noteq>
     elem (ug ex_wave) 0 1 * phase (1, 0, 0) (0, 0, 0) (tau ex_tiny)"
proof -
  have g: "gsphere ex_wave = ex_sphere" and n: "nspinor ex_wave = 1" and p: "npw ex_wave = 4"
    by (simp_all add: ex_wave_def npw_def gsphere_npw_def ex_sphere_def)
  have r: "gsphere_rotate ex_extern (gsphere ex_wave) ex_tiny = ex_sphere"
    by (simp add: g ex_rotate_id ex_tiny_def)
  have h: "gsphere_npw (gsphere_rotate ex_extern (gsphere ex_wave) ex_tiny) = npw ex_wave"
    by (simp add: r p) (simp add: gsphere_npw_def ex_sphere_def)
  have "rotate ex_extern ex_wave ex_tiny = Inr ex_wave"
    unfolding rotate_result [OF ex_wave_inv n h]
    by (simp add: r rotated_ug_def ex_tiny_close) (simp add: ex_wave_def ex_tiny_def)
  moreover have "tau ex_tiny \<noteq> zeros3"
    by (simp add: ex_tiny_def zeros3_def)
  moreover have "gvecs (gsphere ex_wave) ! 1 = (1, 0, 0)" "kpoint (gsphere ex_wave) = (0, 0, 0)"
    by (simp_all add: g ex_sphere_def)
  moreover have "elem (ug ex_wave) 0 1 = 1"
    by (simp add: elem_def ex_wave_def ex_ug_def)
  moreover have "phase (1, 0, 0) (0, 0, 0) (tau ex_tiny) \<noteq> 1"
    using tiny_phase by (simp add: ex_tiny_def)
  ultimately show ?thesis
    using n by simp
qed

text \<open>
  Claim C3. For a single-spinor wavefunction and a symmetry operation whose translation is
  exactly zero, \<^verbatim>\<open>rotate\<close> returns a wavefunction whose coefficient array is a copy of the
  original one (when the rotated sphere has as many vectors as the original); and when the
  rotation of the sphere itself returns an equal sphere, as for the identity operation, the result
  is equal to the original under \<^verbatim>\<open>__eq__\<close>, in both directions.
\<close>

theorem rotate_zero_translation_copies:
  assumes "wave_inv w" and "nspinor w = 1" and "tau s = zeros3"
  shows "(gsphere_npw (gsphere_rotate E (gsphere w) s) = npw w \<longrightarrow>
           (\<exists>w'. rotate E w s = Inr w' \<and> ug w' = ug w)) \<and>
         (gsphere_rotate E (gsphere w) s = gsphere w \<longrightarrow>
           (\<exists>w'. rotate E w s = Inr w' \<and> ug w' = ug w \<and>
              wave_eq w' (Some w) = Inr True \<and> wave_eq w (Some w') = Inr True))"
proof (intro conjI impI)
  assume h: "gsphere_npw (gsphere_rotate E (gsphere w) s) = npw w"
  show "\<exists>w'. rotate E w s = Inr w' \<and> ug w' = ug w"
    using assms(3) by (simp add: rotate_result [OF assms(1,2) h] rotated_ug_def allclose3_zeros)
next
  assume eq: "gsphere_rotate E (gsphere w) s = gsphere w"
  then have h: "gsphere_npw (gsphere_rotate E (gsphere w) s) = npw w"
    by (simp add: npw_def)
  let ?w' = "\<lparr>nspinor = 1, spin = (if is_fm s then spin w else (spin w + 1) mod 2), band = band w,
         gsphere = gsphere_rotate E (gsphere w) s, ug = rotated_ug E w s,
         ur_attr = None, mesh_attr = None\<rparr>"
  have u: "ug ?w' = ug w"
    using assms(3) by (simp add: rotated_ug_def allclose3_zeros)
  have g: "gsphere ?w' = gsphere w"
    using eq by simp
  from wave_eq_same_ug [OF assms(1) g u] u
  show "\<exists>w'. rotate E w s = Inr w' \<and> ug w' = ug w \<and>
              wave_eq w' (Some w) = Inr True \<and> wave_eq w (Some w') = Inr True"
    unfolding rotate_result [OF assms(1,2) h] by blast
qed

theorem rotate_zero_translation_copies_witness:
  "wave_inv ex_wave \<and> nspinor ex_wave = 1 \<and> tau ex_identity = zeros3 \<and>
   gsphere_rotate ex_extern (gsphere ex_wave) ex_identity = gsphere ex_wave \<and>
   gsphere_npw (gsphere_rotate ex_extern (gsphere ex_wave) ex_identity) = npw ex_wave \<and>
   (\<exists>w'. rotate ex_extern ex_wave ex_identity = Inr w' \<and> ug w' = ug ex_wave \<and>
      wave_eq w' (Some ex_wave) = Inr True \<and> wave_eq ex_wave (Some w') = Inr True)"
proof -
  have g: "gsphere ex_wave = ex_sphere" and n: "nspinor ex_wave = 1"
    by (simp_all add: ex_wave_def)
  have t: "tau ex_identity = zeros3"
    by (simp add: ex_identity_def zeros3_def)
  have r: "gsphere_rotate ex_extern (gsphere ex_wave) ex_identity = gsphere ex_wave"
    by (simp add: g ex_rotate_id ex_identity_def)
  have h: "gsphere_npw (gsphere_rotate ex_extern (gsphere ex_wave) ex_identity) = npw ex_wave"
    by (simp add: r npw_def)
  from rotate_zero_translation_copies [OF ex_wave_inv n t, of ex_extern] r h ex_wave_inv n t
  show ?thesis by simp
qed

text \<open>
  Claim C4. \<^verbatim>\<open>rotate\<close> keeps the scalar product of the coefficient array with itself:
  \<^verbatim>\<open>braket\<close> of \<open>w\<close> with itself in the mode \<^verbatim>\<open>gsphere\<close> and \<^verbatim>\<open>norm2\<close> in the mode \<^verbatim>\<open>g\<close> give the same values for the rotated
  wavefunction as for the original. This holds for every translation, zero or not (every
  phase has modulus one).
\<close>

theorem rotate_preserves_norm:
  assumes "wave_inv w" and "nspinor w = 1"
    and "gsphere_npw (gsphere_rotate E (gsphere w) s) = npw w"
  shows "\<exists>w' z x. rotate E w s = Inr w' \<and>
           braket E w w ''gsphere'' = Inr (z, w, w) \<and>
           braket E w' w' ''gsphere'' = Inr (z, w', w') \<and>
           norm2 E w ''g'' = Inr (x, w) \<and>
           norm2 E w' ''g'' = Inr (x, w')"
  by (simp add: rotate_result [OF assms] braket_def norm2_def lower_g lower_gsphere vdot_self
        rotated_ug_sum [OF assms(1,2)])

theorem rotate_preserves_norm_witness:
  "wave_inv ex_wave \<and> nspinor ex_wave = 1 \<and> tau ex_afm \<noteq> zeros3 \<and>
   gsphere_npw (gsphere_rotate ex_extern (gsphere ex_wave) ex_afm) = npw ex_wave \<and>
   (\<exists>w'. rotate ex_extern ex_wave ex_afm = Inr w' \<and>
      braket ex_extern ex_wave ex_wave ''gsphere'' = Inr (2, ex_wave, ex_wave) \<and>
      braket ex_extern w' w' ''gsphere'' = Inr (2, w', w') \<and>
      norm2 ex_extern ex_wave ''g'' = Inr (2, ex_wave) \<and>
      norm2 ex_extern w' ''g'' = Inr (2, w'))"
proof -
  have g: "gsphere ex_wave = ex_sphere" and n: "nspinor ex_wave = 1" and p: "npw ex_wave = 4"
    by (simp_all add: ex_wave_def npw_def gsphere_npw_def ex_sphere_def)
  have r: "gsphere_rotate ex_extern (gsphere ex_wave) ex_afm = ex_sphere"
    by (simp add: g ex_rotate_id ex_afm_def)
  have h: "gsphere_npw (gsphere_rotate ex_extern (gsphere ex_wave) ex_afm) = npw ex_wave"
    by (simp add: r p) (simp add: gsphere_npw_def ex_sphere_def)
  have t: "tau ex_afm \<noteq> zeros3"
    by (simp add: ex_afm_def zeros3_def)
  have b: "braket ex_extern ex_wave ex_wave ''gsphere'' = Inr (2, ex_wave, ex_wave)"
    by (simp add: braket_def lower_gsphere vdot_def) (simp add: ex_wave_def ex_ug_def)
  have m: "norm2 ex_extern ex_wave ''g'' = Inr (2, ex_wave)"
    by (simp add: norm2_def lower_g vdot_def) (simp add: ex_wave_def ex_ug_def)
  from rotate_preserves_norm [OF ex_wave_inv n h] b m ex_wave_inv n t h
  show ?thesis by auto
qed

lemma vdot_not_wrong_space: "vdot a b \<noteq> Inl (ValueError (''Wrong space: '' @ s))"
  by (simp add: vdot_def)

lemma norm2_lower: "norm2 E w (lower s) = norm2 E w s"
  by (simp add: norm2_def lower_idem)

lemma braket_lower: "braket E w other (lower s) = braket E w other s"
  by (simp add: braket_def lower_idem)

lemma norm2_rejects_iff:
  "norm2 E w s = Inl (ValueError (''Wrong space: '' @ lower s)) \<longleftrightarrow>
   lower s \<noteq> ''g'' \<and> lower s \<noteq> ''r''"
  by (auto simp: norm2_def Let_def vdot_def mesh_def ur2_def ur_def fft_ug_def
      split: sum.splits option.splits prod.splits)

lemma braket_rejects_iff:
  "braket E w other s = Inl (ValueError (''Wrong space: '' @ lower s)) \<longleftrightarrow>
   lower s \<noteq> ''g'' \<and> lower s \<noteq> ''gsphere'' \<and> lower s \<noteq> ''r''"
  by (auto simp: braket_def Let_def vdot_def mesh_def ur_def fft_ug_def
      split: sum.splits option.splits prod.splits)

text \<open>
  Claim C9, amended. A mode string whose lower-case form is none of \<^verbatim>\<open>g\<close>, \<^verbatim>\<open>gsphere\<close>, \<^verbatim>\<open>r\<close> makes
  \<^verbatim>\<open>braket\<close> raise the \<^verbatim>\<open>ValueError\<close> with the message \<^verbatim>\<open>Wrong space: ...\<close> (the InvalidMode of the
  specification), and one whose lower-case form is neither \<^verbatim>\<open>g\<close> nor \<^verbatim>\<open>r\<close> makes \<^verbatim>\<open>norm2\<close> raise
  it; no result is returned.
\<close>

theorem unrecognized_mode_is_refused:
  "(lower s \<noteq> ''g'' \<and> lower s \<noteq> ''gsphere'' \<and> lower s \<noteq> ''r'' \<longrightarrow>
      braket E w other s = Inl (ValueError (''Wrong space: '' @ lower s))) \<and>
   (lower s \<noteq> ''g'' \<and> lower s \<noteq> ''r'' \<longrightarrow>
      norm2 E w s = Inl (ValueError (''Wrong space: '' @ lower s)))"
  by (simp add: braket_def norm2_def)

lemma lower_X: "lower ''X'' = ''x''"
  by code_simp

theorem unrecognized_mode_is_refused_witness:
  "lower ''X'' \<noteq> ''g'' \<and> lower ''X'' \<noteq> ''gsphere'' \<and> lower ''X'' \<noteq> ''r'' \<and>
   braket ex_extern ex_wave ex_wave ''X'' = Inl (ValueError ''Wrong space: x'') \<and>
   norm2 ex_extern ex_wave ''X'' = Inl (ValueError ''Wrong space: x'')"
  using unrecognized_mode_is_refused [of "''X''" ex_extern ex_wave ex_wave]
  by (simp add: lower_X)

text \<open>
  Claim C9 as stated refuses every string that is not one of the selectors. \<^verbatim>\<open>G\<close> is not
  \<^verbatim>\<open>g\<close> and \<^verbatim>\<open>GSPHERE\<close> is not \<^verbatim>\<open>gsphere\<close>, but both are accepted: the source lower-cases the mode first.
\<close>

theorem uppercase_mode_counterexample:
  "''G'' \<noteq> ''g'' \<and> ''G'' \<noteq> ''r'' \<and>
   norm2 ex_extern ex_wave ''G'' = Inr (2, ex_wave) \<and>
   ''GSPHERE'' \<noteq> ''g'' \<and> ''GSPHERE'' \<noteq> ''gsphere'' \<and> ''GSPHERE'' \<noteq> ''r'' \<and>
   braket ex_extern ex_wave ex_wave ''GSPHERE'' = Inr (2, ex_wave, ex_wave)"
  by (simp add: norm2_def braket_def lower_G lower_GSPHERE vdot_def) (simp add: ex_wave_def ex_ug_def)

text \<open>
  Claim C10. The mode is matched without regard to case: \<^verbatim>\<open>norm2\<close> and \<^verbatim>\<open>braket\<close>
  give for a string what they give for its lower-case form, in particular
  \<^verbatim>\<open>G\<close> behaves as \<^verbatim>\<open>g\<close> and \<^verbatim>\<open>GSPHERE\<close> as \<^verbatim>\<open>gsphere\<close>; and the error for a wrong mode is raised exactly when the
  lower-case form is outside the recognised set.
\<close>

theorem mode_is_case_insensitive:
  "norm2 E w s = norm2 E w (lower s) \<and>
   braket E w other s = braket E w other (lower s) \<and>
   norm2 E w ''G'' = norm2 E w ''g'' \<and>
   braket E w other ''GSPHERE'' = braket E w other ''gsphere'' \<and>
   ((norm2 E w s = Inl (ValueError (''Wrong space: '' @ lower s))) =
      (lower s \<notin> {''g'', ''r''})) \<and>
   ((braket E w other s = Inl (ValueError (''Wrong space: '' @ lower s))) =
      (lower s \<notin> {''g'', ''gsphere'', ''r''}))"
proof -
  have "norm2 E w ''G'' = norm2 E w ''g''"
    using norm2_lower [of E w "''G''"] by (simp add: lower_G)
  moreover have "braket E w other ''GSPHERE'' = braket E w other ''gsphere''"
    using braket_lower [of E w other "''GSPHERE''"] by (simp add: lower_GSPHERE)
  ultimately show ?thesis
    using norm2_rejects_iff [of E w s] braket_rejects_iff [of E w other s]
    by (simp add: norm2_lower braket_lower)
qed

theorem mode_is_case_insensitive_witness:
  "norm2 ex_extern ex_wave ''G'' = Inr (2, ex_wave) \<and>
   braket ex_extern ex_wave ex_wave ''GSPHERE'' = Inr (2, ex_wave, ex_wave) \<and>
   norm2 ex_extern ex_wave ''Gsphere'' = Inl (ValueError ''Wrong space: gsphere'')"
proof -
  note T = mode_is_case_insensitive [of ex_extern ex_wave "''Gsphere''" ex_wave]
  have b: "braket ex_extern ex_wave ex_wave ''gsphere'' = Inr (2, ex_wave, ex_wave)"
    by (simp add: braket_def lower_gsphere vdot_def) (simp add: ex_wave_def ex_ug_def)
  have m: "norm2 ex_extern ex_wave ''g'' = Inr (2, ex_wave)"
    by (simp add: norm2_def lower_g vdot_def) (simp add: ex_wave_def ex_ug_def)
  have l: "lower ''Gsphere'' = ''gsphere''"
    by code_simp
  from T have "norm2 ex_extern ex_wave ''G'' = norm2 ex_extern ex_wave ''g''"
    by blast
  with m have 1: "norm2 ex_extern ex_wave ''G'' = Inr (2, ex_wave)"
    by simp
  from T have "braket ex_extern ex_wave ex_wave ''GSPHERE'' = braket ex_extern ex_wave ex_wave ''gsphere''"
    by blast
  with b have 2: "braket ex_extern ex_wave ex_wave ''GSPHERE'' = Inr (2, ex_wave, ex_wave)"
    by simp
  from T have "(norm2 ex_extern ex_wave ''Gsphere'' =
      Inl (ValueError (''Wrong space: '' @ lower ''Gsphere''))) = (lower ''Gsphere'' \<notin> {''g'', ''r''})"
    by blast
  then have 3: "norm2 ex_extern ex_wave ''Gsphere'' = Inl (ValueError ''Wrong space: gsphere'')"
    unfolding l by simp
  from 1 2 3 show ?thesis
    by blast
qed

text \<open>
  Claim C6, amended. For a single-spinor wavefunction (and a rotated sphere with as many
  vectors as the original) \<^verbatim>\<open>rotate\<close> returns a wavefunction whose spin is
  \<^verbatim>\<open>(spin + 1) % 2\<close> for an anti-ferromagnetic operation and \<^verbatim>\<open>spin\<close> for a
  ferromagnetic one. When the spin of the original is 0 or 1, applying the same
  anti-ferromagnetic operation a second time gives the original spin back.
\<close>

theorem rotate_spin_channel:
  assumes "wave_inv w" and "nspinor w = 1"
    and "gsphere_npw (gsphere_rotate E (gsphere w) s) = npw w"
  shows "\<exists>w'. rotate E w s = Inr w' \<and>
           spin w' = (if is_fm s then spin w else (spin w + 1) mod 2) \<and>
           (\<not> is_fm s \<and> (spin w = 0 \<or> spin w = 1) \<and>
            gsphere_npw (gsphere_rotate E (gsphere w') s) = npw w' \<longrightarrow>
              (\<exists>w''. rotate E w' s = Inr w'' \<and> spin w' = 1 - spin w \<and> spin w'' = spin w))"
proof -
  obtain w' where w': "rotate E w s = Inr w'"
    by (simp add: rotate_result [OF assms])
  with rotate_inv [OF assms w'] have inv': "wave_inv w'" "nspinor w' = 1"
    by simp_all
  have sp: "spin w' = (if is_fm s then spin w else (spin w + 1) mod 2)"
    using w' by (auto simp: rotate_result [OF assms])
  have "\<exists>w''. rotate E w' s = Inr w'' \<and> spin w' = 1 - spin w \<and> spin w'' = spin w"
    if "\<not> is_fm s" "spin w = 0 \<or> spin w = 1"
      "gsphere_npw (gsphere_rotate E (gsphere w') s) = npw w'"
    using that sp by (auto simp: rotate_result [OF inv' that(3)])
  with w' sp show ?thesis by blast
qed

theorem rotate_spin_channel_witness:
  "wave_inv ex_wave \<and> nspinor ex_wave = 1 \<and> \<not> is_fm ex_afm \<and> spin ex_wave = 0 \<and>
   gsphere_npw (gsphere_rotate ex_extern (gsphere ex_wave) ex_afm) = npw ex_wave \<and>
   (\<exists>w' w''. rotate ex_extern ex_wave ex_afm = Inr w' \<and> spin w' = 1 \<and>
      rotate ex_extern w' ex_afm = Inr w'' \<and> spin w'' = 0)"
proof -
  have g: "gsphere ex_wave = ex_sphere" and n: "nspinor ex_wave = 1" and p: "npw ex_wave = 4"
    and s0: "spin ex_wave = 0"
    by (simp_all add: ex_wave_def npw_def gsphere_npw_def ex_sphere_def)
  have f: "\<not> is_fm ex_afm"
    by (simp add: ex_afm_def)
  have r: "gsphere_rotate ex_extern (gsphere ex_wave) ex_afm = ex_sphere"
    by (simp add: g ex_rotate_id ex_afm_def)
  have q: "gsphere_npw ex_sphere = 4"
    by (simp add: gsphere_npw_def ex_sphere_def)
  have h: "gsphere_npw (gsphere_rotate ex_extern (gsphere ex_wave) ex_afm) = npw ex_wave"
    by (simp add: r p q)
  from rotate_spin_channel [OF ex_wave_inv n h] obtain w' where w':
    "rotate ex_extern ex_wave ex_afm = Inr w'"
    "spin w' = (if is_fm ex_afm then spin ex_wave else (spin ex_wave + 1) mod 2)"
    "\<not> is_fm ex_afm \<and> (spin ex_wave = 0 \<or> spin ex_wave = 1) \<and>
       gsphere_npw (gsphere_rotate ex_extern (gsphere w') ex_afm) = npw w' \<longrightarrow>
       (\<exists>w''. rotate ex_extern w' ex_afm = Inr w'' \<and> spin w' = 1 - spin ex_wave \<and> spin w'' = spin ex_wave)"
    by blast
  have gw': "gsphere w' = ex_sphere"
    using w'(1) r by (auto simp: rotate_result [OF ex_wave_inv n h])
  have "gsphere_npw (gsphere_rotate ex_extern (gsphere w') ex_afm) = npw w'"
    by (simp add: gw' npw_def ex_rotate_id ex_afm_def)
  with w'(3) f s0 obtain w'' where "rotate ex_extern w' ex_afm = Inr w''" "spin w'' = 0"
    by auto
  moreover have "spin w' = 1"
    using w'(2) f s0 by simp
  ultimately show ?thesis
    using ex_wave_inv n f s0 h w'(1) by blast
qed

text \<open>
  Claim C6 as stated promises the original spin after two anti-ferromagnetic rotations of
  every wavefunction. The constructor accepts any integer as spin; from spin 2 the first
  rotation gives 1 and the second 0.
\<close>

theorem rotate_twice_spin_counterexample:
  "nspinor ex_wave_spin2 = 1 \<and> \<not> is_fm ex_afm0 \<and>
   rotate ex_extern ex_wave_spin2 ex_afm0 = Inr (ex_wave\<lparr>spin := 1\<rparr>) \<and>
   rotate ex_extern (ex_wave\<lparr>spin := 1\<rparr>) ex_afm0 = Inr (ex_wave\<lparr>spin := 0\<rparr>) \<and>
   spin (ex_wave\<lparr>spin := 0\<rparr>) \<noteq> spin ex_wave_spin2"
proof -
  have inv: "wave_inv (ex_wave\<lparr>spin := k\<rparr>)" for k
    using ex_wave_inv by (simp add: wave_inv_def shape_def npw_def)
  have n: "nspinor (ex_wave\<lparr>spin := k\<rparr>) = 1" for k
    by (simp add: ex_wave_def)
  have g: "gsphere ex_wave = ex_sphere"
    by (simp add: ex_wave_def)
  have r0: "gsphere_rotate ex_extern ex_sphere ex_afm0 = ex_sphere"
    using ex_rotate_id [of ex_afm0] by (simp add: ex_afm0_def)
  have r: "gsphere_rotate ex_extern (gsphere (ex_wave\<lparr>spin := k\<rparr>)) ex_afm0 = ex_sphere" for k
    by (simp add: g r0)
  have h: "gsphere_npw (gsphere_rotate ex_extern (gsphere (ex_wave\<lparr>spin := k\<rparr>)) ex_afm0) =
      npw (ex_wave\<lparr>spin := k\<rparr>)" for k
    unfolding r by (simp add: npw_def ex_wave_def)
  have c: "allclose3 (tau ex_afm0) zeros3"
    by (simp add: ex_afm0_def zeros3_def isclose_refl)
  have rot: "rotate ex_extern (ex_wave\<lparr>spin := k\<rparr>) ex_afm0 = Inr (ex_wave\<lparr>spin := (k + 1) mod 2\<rparr>)" for k
    unfolding rotate_result [OF inv n h]
    by (simp add: g r0 rotated_ug_def c) (simp add: ex_wave_def ex_afm0_def)
  have "rotate ex_extern ex_wave_spin2 ex_afm0 = Inr (ex_wave\<lparr>spin := 1\<rparr>)"
    using rot [of 2] by (simp add: ex_wave_spin2_def)
  moreover have "rotate ex_extern (ex_wave\<lparr>spin := 1\<rparr>) ex_afm0 = Inr (ex_wave\<lparr>spin := 0\<rparr>)"
    using rot [of 1] by simp
  moreover have "nspinor ex_wave_spin2 = 1" "\<not> is_fm ex_afm0"
    "spin (ex_wave\<lparr>spin := 0\<rparr>) \<noteq> spin ex_wave_spin2"
    by (simp_all add: ex_wave_spin2_def ex_wave_def ex_afm0_def)
  ultimately show ?thesis
    by blast
qed

end
